theory Spec2Isabelle
  imports Complex_Main
begin

section \<open>Command whitelist (common.py)\<close>

text \<open>
  Strings are Python \<open>str\<close> values restricted to ASCII, modelled as \<open>string\<close>.
  \<open>ALLOWED_COMMANDS\<close> is the dictionary of common.py, kept as an association list and
  read with \<open>map_of\<close>; \<open>ALLOWED_SYSCTL_PARAMS\<close> is the set literal, kept as a list.
\<close>

definition ALLOWED_COMMANDS :: "(string \<times> string list) list" where
  "ALLOWED_COMMANDS =
    [(''systemctl'', [''start'', ''stop'', ''restart'', ''status'', ''is-active'', ''is-failed'']),
     (''sysctl'', [''-n'', ''-w'']),
     (''renice'', [''-n'', ''-p'']),
     (''ionice'', [''-c1'', ''-c2'', ''-c3'', ''-n0'', ''-n1'', ''-n2'', ''-n3'', ''-n4'',
                   ''-n5'', ''-n6'', ''-n7'', ''-p'']),
     (''taskset'', [''-cp'']),
     (''pkill'', [''-f'']),
     (''pgrep'', [''-f'']),
     (''fail2ban-client'', [''status'', ''set'', ''unbanall'']),
     (''chown'', [])]"

definition ALLOWED_SYSCTL_PARAMS :: "string list" where
  "ALLOWED_SYSCTL_PARAMS =
    [''net.core.rmem_default'', ''net.core.wmem_default'', ''net.core.rmem_max'',
     ''net.core.wmem_max'', ''net.core.netdev_max_backlog'', ''net.core.somaxconn'',
     ''net.ipv4.tcp_rmem'', ''net.ipv4.tcp_wmem'', ''net.ipv4.tcp_congestion_control'',
     ''net.ipv4.tcp_notsent_lowat'', ''net.ipv4.tcp_slow_start_after_idle'',
     ''vm.swappiness'', ''vm.vfs_cache_pressure'', ''vm.dirty_ratio'',
     ''vm.dirty_background_ratio'', ''vm.nr_hugepages'']"

text \<open>\<open>s.endswith(suf)\<close>.\<close>

definition endswith :: "string \<Rightarrow> string \<Rightarrow> bool" where
  "endswith s suf \<longleftrightarrow> length suf \<le> length s \<and> drop (length s - length suf) s = suf"

text \<open>\<open>s.split(c)[0]\<close>: the text before the first occurrence of \<open>c\<close>, all of \<open>s\<close>
  when there is none.\<close>

definition split_first :: "char \<Rightarrow> string \<Rightarrow> string" where
  "split_first c s = takeWhile (\<lambda>x. x \<noteq> c) s"

text \<open>\<open>s.replace(c, '')\<close> for a one-character \<open>c\<close>.\<close>

definition remove_char :: "char \<Rightarrow> string \<Rightarrow> string" where
  "remove_char c s = filter (\<lambda>x. x \<noteq> c) s"

text \<open>\<open>str.isalnum\<close> on ASCII text: at least one character, and every character a
  letter or a digit.\<close>

definition alnum_chars :: "char list" where
  "alnum_chars = ''abcdefghijklmnopqrstuvwxyzABCDEFGHIJKLMNOPQRSTUVWXYZ0123456789''"

definition isalnum :: "string \<Rightarrow> bool" where
  "isalnum s \<longleftrightarrow> s \<noteq> [] \<and> list_all (\<lambda>c. c \<in> set alnum_chars) s"

text \<open>The loop at the end of \<open>validate_command\<close> (the "standard validation"): every
  argument is in the command's list or is alphanumeric once \<open>-\<close>, \<open>_\<close>, \<open>.\<close> and \<open>/\<close>
  are removed.\<close>

definition standard_arg_ok :: "string list \<Rightarrow> string \<Rightarrow> bool" where
  "standard_arg_ok allowed_args arg \<longleftrightarrow>
     arg \<in> set allowed_args \<or>
     isalnum (remove_char (CHR ''/'') (remove_char (CHR ''.'')
               (remove_char (CHR ''_'') (remove_char (CHR ''-'') arg))))"

definition standard_validation :: "string list \<Rightarrow> string list \<Rightarrow> bool" where
  "standard_validation allowed_args args = list_all (standard_arg_ok allowed_args) args"

text \<open>
  \<open>validate_command\<close>, branch by branch. The \<open>systemctl\<close> and \<open>chown\<close> branches return on
  every path. The \<open>sysctl\<close> branch returns only under \<open>-w\<close> or \<open>-n\<close>: with any other first
  argument control leaves the \<open>if\<close>/\<open>elif\<close> chain and reaches the standard validation.
\<close>

definition validate_command :: "string \<Rightarrow> string list \<Rightarrow> bool" where
  "validate_command command args =
    (case map_of ALLOWED_COMMANDS command of
       None \<Rightarrow> False
     | Some allowed_args \<Rightarrow>
         if command = ''systemctl'' then
           (if length args < 2 then False
            else args ! 0 \<in> set allowed_args \<and> endswith (args ! 1) ''.service'')
         else if command = ''sysctl'' then
           (if length args < 2 then False
            else if args ! 0 = ''-w'' \<and> length args \<ge> 2 then
              split_first (CHR ''='') (args ! 1) \<in> set ALLOWED_SYSCTL_PARAMS
            else if args ! 0 = ''-n'' \<and> length args \<ge> 2 then
              args ! 1 \<in> set ALLOWED_SYSCTL_PARAMS
            else standard_validation allowed_args args)
         else if command = ''chown'' then
           (if length args \<ge> 2 \<and> args ! 0 = ''satisfactory:satisfactory'' then True
            else False)
         else standard_validation allowed_args args)"

subsection \<open>Running a validated command\<close>

text \<open>
  \<open>subprocess.run\<close> is the environment: an executor maps the argument vector it is given
  to the completed process, or to \<open>None\<close> when the call raises (\<open>TimeoutExpired\<close>, a
  missing binary); \<open>safe_subprocess\<close> turns every exception into \<open>None\<close>.
\<close>

record completed_process =
  returncode :: int
  stdout :: string
  stderr :: string

type_synonym executor = "string list \<Rightarrow> completed_process option"

text \<open>\<open>shlex.quote\<close> on a string that contains a space (the only strings
  \<open>safe_subprocess\<close> passes to it): single quotes around it, each inner single quote
  written as \<open>'"'"'\<close>.\<close>

definition shlex_quote :: "string \<Rightarrow> string" where
  "shlex_quote s =
     [CHR 0x27] @ concat (map (\<lambda>c. if c = CHR 0x27
        then [CHR 0x27, CHR 0x22, CHR 0x27, CHR 0x22, CHR 0x27] else [c]) s) @ [CHR 0x27]"

definition safe_subprocess :: "executor \<Rightarrow> string list \<Rightarrow> completed_process option" where
  "safe_subprocess run cmd =
    (case cmd of
       [] \<Rightarrow> None
     | command # args \<Rightarrow>
         if \<not> validate_command command args then None
         else run (map (\<lambda>arg. if CHR '' '' \<in> set arg then shlex_quote arg else arg) cmd))"

definition safe_systemctl :: "executor \<Rightarrow> string \<Rightarrow> string \<Rightarrow> completed_process option" where
  "safe_systemctl run action service = safe_subprocess run [''systemctl'', action, service]"

section \<open>The watchdog (watchdog_bot.py)\<close>

text \<open>
  Instants (\<open>datetime\<close> values) are integers, microseconds since the epoch; an ISO
  timestamp string is the instant it denotes, \<open>None\<close> where an entry has no \<open>timestamp\<close>
  key (\<open>KeyError\<close>) or a text \<open>fromisoformat\<close> rejects (\<open>ValueError\<close>).
\<close>

definition minutes :: "int \<Rightarrow> int" where
  "minutes m = m * 60000000"

definition one_hour :: int where
  "one_hour = 3600000000"

datatype restart_reason =
    ServerOffline
  | MemoryLeak int
  | CpuOverload real
  | ForceRestartBy string

record restart_entry =
  timestamp :: "int option"
  reason :: restart_reason
  restart_number :: int

text \<open>The texts handed to \<open>log_admin\<close>, one constructor per call site.\<close>

datatype admin_message =
    RestartTriggered restart_reason
  | NormalStopFailed
  | ForceStopFailed
  | StartFailed string
  | RestartSucceeded int
  | ReadyAfterRestart
  | ReadinessUnconfirmed
  | ServerOfflineDetected int
  | RestartLimitReached int
  | CriticalMemory int
  | HighMemory int
  | HighCpu real int
  | CpuRestartDelayed int
  | CpuNormalized
  | ForceRestartRequested string

text \<open>The dictionary \<open>save_state\<close> stores under \<open>'watchdog_state'\<close>.\<close>

record snapshot =
  s_down_counter :: int
  s_high_cpu_counter :: int
  s_high_memory_counter :: int
  s_restart_count :: int
  s_last_restart :: "int option"
  s_restart_history :: "restart_entry list"

text \<open>
  The fields of \<open>ServerWatchdog\<close> that the handlers and the recovery procedure use,
  with two pieces of the world they write to: \<open>persisted\<close>, the value of
  \<open>persistent_state.data['watchdog_state']\<close>, and \<open>admin_log\<close>, the calls of \<open>log_admin\<close>
  made so far (message, \<open>ping_owner\<close>), oldest first.
\<close>

record watchdog =
  down_counter :: int
  high_cpu_counter :: int
  high_memory_counter :: int
  restart_count :: int
  last_restart :: "int option"
  alert_cooldowns :: "string \<rightharpoonup> int"
  memory_warning_threshold :: real
  alert_cooldown_minutes :: int
  max_restarts_per_hour :: int
  restart_history :: "restart_entry list"
  persisted :: "snapshot option"
  admin_log :: "(admin_message \<times> bool) list"

text \<open>The constants read from the process environment.\<close>

record config =
  SATISFACTORY_SERVICE :: string
  SERVER_DOWN_THRESHOLD :: int
  MEMORY_LEAK_THRESHOLD :: int
  CONTINUOUS_HIGH_CPU :: int

definition default_config :: config where
  "default_config =
     \<lparr>SATISFACTORY_SERVICE = ''satisfactory.service'', SERVER_DOWN_THRESHOLD = 2,
      MEMORY_LEAK_THRESHOLD = 12000, CONTINUOUS_HIGH_CPU = 5\<rparr>"

text \<open>What the world answers during one call: the executor behind \<open>subprocess.run\<close>
  and the verdict of \<open>wait_for_server_ready\<close>.\<close>

record environment =
  run_command :: executor
  server_ready :: bool

text \<open>The readings of \<open>datetime.now()\<close> a handler can take, one per place that reads
  the clock: \<open>should_send_alert\<close>, \<open>set_alert_cooldown\<close>, \<open>can_restart\<close> and the
  timestamp \<open>restart_server\<close> records.\<close>

record clock =
  now_alert :: int
  now_cooldown :: int
  now_limit :: int
  now_restart :: int

text \<open>\<open>ServerWatchdog.__init__\<close> before \<open>load_state\<close>. The warning threshold is the
  floating-point product \<open>MEMORY_LEAK_THRESHOLD * 0.8\<close> in the source and the exact
  product here; no result below depends on its value.\<close>

definition new_watchdog :: "config \<Rightarrow> watchdog" where
  "new_watchdog cfg =
     \<lparr>down_counter = 0, high_cpu_counter = 0, high_memory_counter = 0, restart_count = 0,
      last_restart = None, alert_cooldowns = Map.empty,
      memory_warning_threshold = real_of_int (MEMORY_LEAK_THRESHOLD cfg) * 8 / 10,
      alert_cooldown_minutes = 10, max_restarts_per_hour = 3, restart_history = [],
      persisted = None, admin_log = []\<rparr>"

definition log_admin :: "admin_message \<Rightarrow> bool \<Rightarrow> watchdog \<Rightarrow> watchdog" where
  "log_admin message ping_owner st = st\<lparr>admin_log := admin_log st @ [(message, ping_owner)]\<rparr>"

text \<open>\<open>deque(maxlen=n).append\<close>: the oldest element leaves when the deque is full.\<close>

definition deque_append :: "nat \<Rightarrow> 'a list \<Rightarrow> 'a \<Rightarrow> 'a list" where
  "deque_append maxlen q x = (let q' = q @ [x] in drop (length q' - maxlen) q')"

text \<open>The loop of \<open>can_restart\<close>: an entry is kept when its timestamp parses and lies
  strictly after \<open>hour_ago\<close>; an entry that raises is skipped.\<close>

fun recent_restarts :: "int \<Rightarrow> restart_entry list \<Rightarrow> restart_entry list" where
  "recent_restarts hour_ago [] = []"
| "recent_restarts hour_ago (restart # rest) =
     (case timestamp restart of
        None \<Rightarrow> recent_restarts hour_ago rest
      | Some restart_time \<Rightarrow>
          if restart_time > hour_ago then restart # recent_restarts hour_ago rest
          else recent_restarts hour_ago rest)"

definition can_restart :: "int \<Rightarrow> watchdog \<Rightarrow> bool" where
  "can_restart now st \<longleftrightarrow>
     int (length (recent_restarts (now - one_hour) (restart_history st)))
       < max_restarts_per_hour st"

definition should_send_alert :: "int \<Rightarrow> string \<Rightarrow> watchdog \<Rightarrow> bool" where
  "should_send_alert now alert_type st =
     (case alert_cooldowns st alert_type of
        None \<Rightarrow> True
      | Some last_alert \<Rightarrow> now > last_alert + minutes (alert_cooldown_minutes st))"

definition set_alert_cooldown :: "int \<Rightarrow> string \<Rightarrow> watchdog \<Rightarrow> watchdog" where
  "set_alert_cooldown now alert_type st =
     st\<lparr>alert_cooldowns := (alert_cooldowns st)(alert_type \<mapsto> now)\<rparr>"

definition snapshot_of :: "watchdog \<Rightarrow> snapshot" where
  "snapshot_of st =
     \<lparr>s_down_counter = down_counter st, s_high_cpu_counter = high_cpu_counter st,
      s_high_memory_counter = high_memory_counter st, s_restart_count = restart_count st,
      s_last_restart = last_restart st, s_restart_history = restart_history st\<rparr>"

text \<open>
  Coroutines are modelled one at a time, each run from a state in which no other
  coroutine holds \<open>self._lock\<close>. \<open>save_state\<close> enters \<open>async with self._lock\<close>; the
  argument \<open>lock_held\<close> says whether the caller is itself inside \<open>async with self._lock\<close>.
  \<open>asyncio.Lock\<close> is not reentrant: a holder that awaits its own lock waits for a
  release that only it could perform, so the call never returns, which is the result
  \<open>None\<close>. A failure of the store is caught inside \<open>PersistentState.save\<close> and does not
  reach \<open>save_state\<close>.
\<close>

definition save_state :: "bool \<Rightarrow> watchdog \<Rightarrow> watchdog option" where
  "save_state lock_held st =
     (if lock_held then None else Some (st\<lparr>persisted := Some (snapshot_of st)\<rparr>))"

text \<open>\<open>not result or result.returncode != 0\<close>.\<close>

definition failed :: "completed_process option \<Rightarrow> bool" where
  "failed result = (case result of None \<Rightarrow> True | Some p \<Rightarrow> returncode p \<noteq> 0)"

text \<open>
  \<open>restart_server\<close> runs inside \<open>async with self._lock\<close>. Its result is \<open>Some b\<close> when it
  returns \<open>b\<close> and \<open>None\<close> when it never returns. \<open>restart_after_stop\<close> is the part of
  its body from the settle pause on (the pause itself changes nothing in the state).
\<close>

definition restart_after_stop ::
  "config \<Rightarrow> environment \<Rightarrow> int \<Rightarrow> restart_reason \<Rightarrow> watchdog \<Rightarrow> bool option \<times> watchdog" where
  "restart_after_stop cfg env now why st =
    (let start_result = safe_systemctl (run_command env) ''start'' (SATISFACTORY_SERVICE cfg) in
     if failed start_result then
       (let error_msg = (case start_result of Some p \<Rightarrow> stderr p | None \<Rightarrow> ''Unbekannt'')
        in (Some False, log_admin (StartFailed error_msg) True st))
     else
       (let st1 = st\<lparr>restart_count := restart_count st + 1\<rparr>;
            st2 = st1\<lparr>last_restart := Some now\<rparr>;
            restart_entry = \<lparr>timestamp = last_restart st2, reason = why,
                             restart_number = restart_count st2\<rparr>;
            st3 = st2\<lparr>restart_history := deque_append 10 (restart_history st2) restart_entry\<rparr>
        in case save_state True st3 of
             None \<Rightarrow> (None, st3)
           | Some st4 \<Rightarrow>
               (let st5 = log_admin (RestartSucceeded (restart_count st4)) False st4
                in if server_ready env then (Some True, log_admin ReadyAfterRestart False st5)
                   else (Some True, log_admin ReadinessUnconfirmed True st5))))"

definition restart_server ::
  "config \<Rightarrow> environment \<Rightarrow> int \<Rightarrow> restart_reason \<Rightarrow> watchdog \<Rightarrow> bool option \<times> watchdog" where
  "restart_server cfg env now why st =
    (let st1 = log_admin (RestartTriggered why) False st;
         stop_result = safe_systemctl (run_command env) ''stop'' (SATISFACTORY_SERVICE cfg) in
     if failed stop_result then
       (let st2 = log_admin NormalStopFailed False st1;
            kill_result = safe_subprocess (run_command env)
                            [''sudo'', ''pkill'', ''-f'', ''FactoryServer''] in
        if failed kill_result then (Some False, log_admin ForceStopFailed True st2)
        else restart_after_stop cfg env now why st2)
     else restart_after_stop cfg env now why st1)"

text \<open>
  The handlers return the list \<open>actions\<close>; the result is \<open>None\<close> when the handler never
  returns because the recovery procedure it awaits does not. Each handler wraps its body
  in \<open>try\<close>/\<open>except\<close>; nothing in the modelled bodies raises. \<open>cpu_percent\<close> is a
  finite float, taken as the real number it denotes; the code only compares it with 95.
\<close>

definition handle_server_down ::
  "config \<Rightarrow> environment \<Rightarrow> clock \<Rightarrow> watchdog \<Rightarrow> string list option \<times> watchdog" where
  "handle_server_down cfg env clk st =
    (let st1 = st\<lparr>down_counter := down_counter st + 1\<rparr> in
     case save_state False st1 of
       None \<Rightarrow> (None, st1)
     | Some st2 \<Rightarrow>
        (let st3 =
           (if should_send_alert (now_alert clk) ''server_down'' st2 then
              set_alert_cooldown (now_cooldown clk) ''server_down''
                (log_admin (ServerOfflineDetected (down_counter st2))
                   (down_counter st2 \<ge> SERVER_DOWN_THRESHOLD cfg) st2)
            else st2)
         in if down_counter st3 \<ge> SERVER_DOWN_THRESHOLD cfg then
              (if can_restart (now_limit clk) st3 then
                 (case restart_server cfg env (now_restart clk) ServerOffline st3 of
                    (None, st4) \<Rightarrow> (None, st4)
                  | (Some restart_success, st4) \<Rightarrow>
                      if restart_success then
                        (case save_state False (st4\<lparr>down_counter := 0\<rparr>) of
                           None \<Rightarrow> (None, st4\<lparr>down_counter := 0\<rparr>)
                         | Some st5 \<Rightarrow> (Some [''restart_successful''], st5))
                      else (Some [''restart_failed''], st4))
               else
                 (Some [''restart_rate_limited''],
                  log_admin (RestartLimitReached (max_restarts_per_hour st3)) True st3))
            else (Some [], st3)))"

definition handle_high_memory ::
  "config \<Rightarrow> environment \<Rightarrow> clock \<Rightarrow> int \<Rightarrow> watchdog \<Rightarrow> string list option \<times> watchdog" where
  "handle_high_memory cfg env clk memory_mb st =
    (if memory_mb \<ge> MEMORY_LEAK_THRESHOLD cfg then
       (let st1 = log_admin (CriticalMemory memory_mb) True st in
        if can_restart (now_limit clk) st1 then
          (case restart_server cfg env (now_restart clk) (MemoryLeak memory_mb) st1 of
             (None, st2) \<Rightarrow> (None, st2)
           | (Some restart_success, st2) \<Rightarrow>
               if restart_success then
                 (let st3 = st2\<lparr>high_cpu_counter := 0, high_memory_counter := 0\<rparr> in
                  case save_state False st3 of
                    None \<Rightarrow> (None, st3)
                  | Some st4 \<Rightarrow> (Some [''restart_memory_leak''], st4))
               else (Some [''restart_failed_memory''], st2))
        else (Some [''restart_rate_limited_memory''], st1))
     else if real_of_int memory_mb \<ge> memory_warning_threshold st then
       (let st1 = st\<lparr>high_memory_counter := high_memory_counter st + 1\<rparr> in
        if should_send_alert (now_alert clk) ''high_memory'' st1 then
          (Some [''memory_warning''],
           set_alert_cooldown (now_cooldown clk) ''high_memory''
             (log_admin (HighMemory memory_mb) False st1))
        else (Some [], st1))
     else
       (if high_memory_counter st > 0 then
          (case save_state False (st\<lparr>high_memory_counter := 0\<rparr>) of
             None \<Rightarrow> (None, st\<lparr>high_memory_counter := 0\<rparr>)
           | Some st1 \<Rightarrow> (Some [''memory_normalized''], st1))
        else (Some [], st)))"

definition handle_high_cpu ::
  "config \<Rightarrow> environment \<Rightarrow> clock \<Rightarrow> real \<Rightarrow> int \<Rightarrow> watchdog
     \<Rightarrow> string list option \<times> watchdog" where
  "handle_high_cpu cfg env clk cpu_percent estimated_players st =
    (if cpu_percent \<ge> 95 then
       (let st1 = st\<lparr>high_cpu_counter := high_cpu_counter st + 1\<rparr> in
        case save_state False st1 of
          None \<Rightarrow> (None, st1)
        | Some st2 \<Rightarrow>
           (let st3 =
              (if should_send_alert (now_alert clk) ''high_cpu'' st2 then
                 set_alert_cooldown (now_cooldown clk) ''high_cpu''
                   (log_admin (HighCpu cpu_percent (high_cpu_counter st2)) False st2)
               else st2)
            in if high_cpu_counter st3 \<ge> CONTINUOUS_HIGH_CPU cfg then
                 (if estimated_players > 0 then
                    (let st4 = log_admin (CpuRestartDelayed estimated_players) True st3;
                         st5 = st4\<lparr>high_cpu_counter := max (CONTINUOUS_HIGH_CPU cfg - 2) 0\<rparr>
                     in case save_state False st5 of
                          None \<Rightarrow> (None, st5)
                        | Some st6 \<Rightarrow> (Some [''cpu_restart_delayed_players''], st6))
                  else
                    (if can_restart (now_limit clk) st3 then
                       (case restart_server cfg env (now_restart clk) (CpuOverload cpu_percent) st3 of
                          (None, st4) \<Rightarrow> (None, st4)
                        | (Some restart_success, st4) \<Rightarrow>
                            if restart_success then
                              (case save_state False (st4\<lparr>high_cpu_counter := 0\<rparr>) of
                                 None \<Rightarrow> (None, st4\<lparr>high_cpu_counter := 0\<rparr>)
                               | Some st5 \<Rightarrow> (Some [''restart_cpu_overload''], st5))
                            else (Some [''restart_failed_cpu''], st4))
                     else (Some [''restart_rate_limited_cpu''], st3)))
               else (Some [], st3)))
     else
       (if high_cpu_counter st > 0 then
          (case save_state False (st\<lparr>high_cpu_counter := 0\<rparr>) of
             None \<Rightarrow> (None, st\<lparr>high_cpu_counter := 0\<rparr>)
           | Some st1 \<Rightarrow>
               (Some [''cpu_normalized''],
                if should_send_alert (now_alert clk) ''cpu_normalized'' st1 then
                  set_alert_cooldown (now_cooldown clk) ''cpu_normalized''
                    (log_admin CpuNormalized False st1)
                else st1))
        else (Some [], st)))"

text \<open>
  The slash command \<open>force_restart\<close>. \<open>permitted\<close> is the verdict of \<open>has_permission\<close> on
  the caller; the command body runs only when the rate-limit check in front of it has
  passed. The reply is the text sent back to the caller.
\<close>

datatype reply = NoPermission | ForceRestartDone | ForceRestartFailed

definition force_restart_cmd ::
  "config \<Rightarrow> environment \<Rightarrow> clock \<Rightarrow> bool \<Rightarrow> string \<Rightarrow> watchdog \<Rightarrow> reply option \<times> watchdog" where
  "force_restart_cmd cfg env clk permitted user st =
    (if \<not> permitted then (Some NoPermission, st)
     else
       (let st1 = log_admin (ForceRestartRequested user) False st in
        case restart_server cfg env (now_restart clk) (ForceRestartBy user) st1 of
          (None, st2) \<Rightarrow> (None, st2)
        | (Some restart_success, st2) \<Rightarrow>
            if restart_success then (Some ForceRestartDone, st2)
            else (Some ForceRestartFailed, st2)))"

text \<open>Every invocation of \<open>restart_server\<close> begins with the \<open>RestartTriggered\<close> call of
  \<open>log_admin\<close>, and nothing else logs it: the number of these entries is the number of
  restart attempts made so far.\<close>

fun is_restart_attempt :: "admin_message \<times> bool \<Rightarrow> bool" where
  "is_restart_attempt (RestartTriggered why, ping) = True"
| "is_restart_attempt (other, ping) = False"

definition restart_attempts :: "watchdog \<Rightarrow> nat" where
  "restart_attempts st = length (filter is_restart_attempt (admin_log st))"

section \<open>Rate limiting (common.py)\<close>

text \<open>
  \<open>GlobalRateLimiter\<close>: \<open>per\<close> is the \<open>timedelta\<close> in microseconds, \<open>store\<close> the dictionary
  from user id to the deque of recorded instants. The reading of \<open>datetime.now()\<close> is
  the argument \<open>now\<close>.
\<close>

record rate_limiter =
  max_calls :: int
  per :: int
  store :: "int \<rightharpoonup> int list"

definition GlobalRateLimiter :: "int \<Rightarrow> int \<Rightarrow> rate_limiter" where
  "GlobalRateLimiter maximum per_seconds =
     \<lparr>max_calls = maximum, per = per_seconds * 1000000, store = Map.empty\<rparr>"

text \<open>The loop \<open>while user_calls and now - user_calls[0] > self.per: popleft()\<close>.\<close>

fun popleft_old :: "int \<Rightarrow> int \<Rightarrow> int list \<Rightarrow> int list" where
  "popleft_old now window [] = []"
| "popleft_old now window (t # ts) =
     (if now - t > window then popleft_old now window ts else t # ts)"

definition allow :: "int \<Rightarrow> int \<Rightarrow> rate_limiter \<Rightarrow> bool \<times> rate_limiter" where
  "allow now user_id rl =
    (let user_calls =
           popleft_old now (per rl) (case store rl user_id of None \<Rightarrow> [] | Some q \<Rightarrow> q)
     in if int (length user_calls) \<ge> max_calls rl then
          (False, rl\<lparr>store := (store rl)(user_id \<mapsto> user_calls)\<rparr>)
        else (True, rl\<lparr>store := (store rl)(user_id \<mapsto> user_calls @ [now])\<rparr>))"

text \<open>A sequence of timed calls \<open>(now, user_id)\<close>, each returned with its verdict; and the
  instants at which the calls of one user were approved.\<close>

fun allow_all :: "rate_limiter \<Rightarrow> (int \<times> int) list \<Rightarrow> (int \<times> int \<times> bool) list" where
  "allow_all rl [] = []"
| "allow_all rl ((now, user_id) # calls) =
     (now, user_id, fst (allow now user_id rl)) # allow_all (snd (allow now user_id rl)) calls"

definition approvals :: "int \<Rightarrow> (int \<times> int \<times> bool) list \<Rightarrow> int list" where
  "approvals user_id verdicts =
     map fst (filter (\<lambda>(t, u, ok). u = user_id \<and> ok) verdicts)"

text \<open>How many of the instants \<open>ts\<close> lie in the closed interval from \<open>a\<close> to \<open>a + window\<close>.\<close>

definition in_window :: "int \<Rightarrow> int \<Rightarrow> int list \<Rightarrow> nat" where
  "in_window window a ts = length (filter (\<lambda>t. a \<le> t \<and> t \<le> a + window) ts)"

section \<open>The persistent store (common.py)\<close>

text \<open>
  The directory of the store holds three files: the store file, its \<open>.backup\<close> sidecar
  and \<open>.state_key\<close>. A file of pickled data is modelled by what \<open>pickle.load\<close> makes of
  it: the dictionary that \<open>pickle.dump\<close> wrote in full (\<open>PickledDict\<close>, the plain pickle
  stream of that dictionary), some other pickled object (\<open>PickledOther\<close>), or bytes
  that do not unpickle, as a write that broke off leaves them (\<open>Truncated\<close>). Reading
  an existing file succeeds; the steps of \<open>save\<close> that change the directory can each
  fail, as \<open>faults\<close> says for one call.
\<close>

datatype 'v file_content =
    PickledDict "string \<rightharpoonup> 'v"
  | PickledOther
  | Truncated

record 'v directory =
  primary :: "'v file_content option"
  backup :: "'v file_content option"
  key_file :: "string option"

record faults =
  rename_fails :: bool
  open_fails :: bool
  dump_fails :: bool
  chmod_fails :: bool
  unlink_fails :: bool

definition no_faults :: faults where
  "no_faults = \<lparr>rename_fails = False, open_fails = False, dump_fails = False,
                 chmod_fails = False, unlink_fails = False\<rparr>"

text \<open>\<open>PersistentState\<close>: the in-memory mapping, the key kept in
  \<open>_encryption_key\<close>, the directory, and the number of \<open>log.error\<close> calls \<open>save\<close> has
  made.\<close>

record 'v persistent_state =
  data :: "string \<rightharpoonup> 'v"
  encryption_key :: "string option"
  disk :: "'v directory"
  errors_logged :: nat

definition load :: "'v directory \<Rightarrow> (string \<rightharpoonup> 'v)" where
  "load dir =
     (case primary dir of
        None \<Rightarrow> Map.empty
      | Some (PickledDict d) \<Rightarrow> d
      | Some PickledOther \<Rightarrow> Map.empty
      | Some Truncated \<Rightarrow> Map.empty)"

text \<open>\<open>_get_or_create_key\<close>: \<open>crypto_available\<close> is \<open>CRYPTO_AVAILABLE\<close>, \<open>fresh\<close> the value
  \<open>Fernet.generate_key()\<close> would return, \<open>key_write_fails\<close> whether writing the key
  file raises (the exception is swallowed).\<close>

definition get_or_create_key ::
  "bool \<Rightarrow> string \<Rightarrow> bool \<Rightarrow> 'v directory \<Rightarrow> string option \<times> 'v directory" where
  "get_or_create_key crypto_available fresh key_write_fails dir =
     (if \<not> crypto_available then (None, dir)
      else case key_file dir of
             Some key \<Rightarrow> (Some key, dir)
           | None \<Rightarrow> (Some fresh, if key_write_fails then dir else dir\<lparr>key_file := Some fresh\<rparr>))"

text \<open>\<open>PersistentState.__init__\<close>.\<close>

definition PersistentState ::
  "bool \<Rightarrow> string \<Rightarrow> bool \<Rightarrow> 'v directory \<Rightarrow> 'v persistent_state" where
  "PersistentState crypto_available fresh key_write_fails dir =
     (let loaded = load dir;
          (key, dir') = get_or_create_key crypto_available fresh key_write_fails dir
      in \<lparr>data = loaded, encryption_key = key, disk = dir', errors_logged = 0\<rparr>)"

text \<open>
  \<open>save\<close>: rename the store file to the sidecar when it exists (on POSIX the rename
  replaces an existing sidecar), open and write the store file, set its mode, delete
  the sidecar. The first step that raises ends the call in the \<open>except\<close> clause, which
  logs an error and returns.
\<close>

definition save :: "faults \<Rightarrow> 'v persistent_state \<Rightarrow> 'v persistent_state" where
  "save flt st =
    (let dir = disk st;
         give_up = (\<lambda>d. st\<lparr>disk := d, errors_logged := errors_logged st + 1\<rparr>)
     in if primary dir \<noteq> None \<and> rename_fails flt then give_up dir
        else
          (let dir1 = (if primary dir \<noteq> None
                       then dir\<lparr>backup := primary dir, primary := None\<rparr> else dir)
           in if open_fails flt then give_up dir1
              else if dump_fails flt then give_up (dir1\<lparr>primary := Some Truncated\<rparr>)
              else
                (let dir2 = dir1\<lparr>primary := Some (PickledDict (data st))\<rparr>
                 in if chmod_fails flt then give_up dir2
                    else if backup dir2 \<noteq> None then
                      (if unlink_fails flt then give_up dir2
                       else st\<lparr>disk := dir2\<lparr>backup := None\<rparr>\<rparr>)
                    else st\<lparr>disk := dir2\<rparr>)))"

text \<open>\<open>get(key, default)\<close>.\<close>

definition get :: "'v persistent_state \<Rightarrow> string \<Rightarrow> 'v \<Rightarrow> 'v" where
  "get st key dflt = (case data st key of None \<Rightarrow> dflt | Some v \<Rightarrow> v)"

text \<open>How a call ends for its caller: it returns (\<open>set\<close> has no \<open>return\<close> statement, so
  the value is \<open>None\<close>) or it raises.\<close>

datatype outcome = ReturnsNone | Raises

text \<open>\<open>set(key, value)\<close>. \<open>save\<close> catches every exception, so nothing reaches the
  caller.\<close>

definition set_value ::
  "faults \<Rightarrow> string \<Rightarrow> 'v \<Rightarrow> 'v persistent_state \<Rightarrow> outcome \<times> 'v persistent_state" where
  "set_value flt key val st = (ReturnsNone, save flt (st\<lparr>data := (data st)(key \<mapsto> val)\<rparr>))"

text \<open>The write of step 2 happens and completes: the rename before it (needed only when
  the store file exists) and the open and the dump themselves do not fail.\<close>

definition write_succeeds :: "faults \<Rightarrow> 'v persistent_state \<Rightarrow> bool" where
  "write_succeeds flt st \<longleftrightarrow>
     \<not> (primary (disk st) \<noteq> None \<and> rename_fails flt) \<and> \<not> open_fails flt \<and> \<not> dump_fails flt"

section \<open>Concrete inputs\<close>

text \<open>Environments, clocks and states on which the results below are evaluated.\<close>

definition completed :: "int \<Rightarrow> completed_process" where
  "completed rc = \<lparr>returncode = rc, stdout = [], stderr = []\<rparr>"

text \<open>\<open>systemctl stop\<close> of the service exits with status 1; every other command, the
  forced termination included, would exit with status 0.\<close>

definition stop_refused :: environment where
  "stop_refused =
     \<lparr>run_command = (\<lambda>cmd. if cmd = [''systemctl'', ''stop'', ''satisfactory.service'']
                             then Some (completed 1) else Some (completed 0)),
      server_ready = True\<rparr>"

text \<open>The stop succeeds and \<open>systemctl start\<close> exits with status 1.\<close>

definition start_refused :: environment where
  "start_refused =
     \<lparr>run_command = (\<lambda>cmd. if cmd = [''systemctl'', ''start'', ''satisfactory.service'']
                             then Some (completed 1) else Some (completed 0)),
      server_ready = True\<rparr>"

text \<open>Every command exits with status 0.\<close>

definition all_ok :: environment where
  "all_ok = \<lparr>run_command = (\<lambda>cmd. Some (completed 0)), server_ready = True\<rparr>"

definition at_time :: "int \<Rightarrow> clock" where
  "at_time t = \<lparr>now_alert = t, now_cooldown = t, now_limit = t, now_restart = t\<rparr>"

text \<open>Two hours after the epoch, and a watchdog whose history holds three restarts of
  the last five minutes.\<close>

definition two_hours :: int where
  "two_hours = 7200000000"

definition busy_watchdog :: watchdog where
  "busy_watchdog =
     (new_watchdog default_config)
       \<lparr>restart_count := 3, last_restart := Some 7150000000,
        restart_history :=
          [\<lparr>timestamp = Some 7000000000, reason = ServerOffline, restart_number = 1\<rparr>,
           \<lparr>timestamp = Some 7100000000, reason = ServerOffline, restart_number = 2\<rparr>,
           \<lparr>timestamp = Some 7150000000, reason = ServerOffline, restart_number = 3\<rparr>]\<rparr>"

text \<open>A watchdog one sample short of both the availability and the CPU trip point, and
  a configuration that trips on the first sample of high CPU load.\<close>

definition alarmed_watchdog :: watchdog where
  "alarmed_watchdog = (new_watchdog default_config)\<lparr>down_counter := 1, high_cpu_counter := 4\<rparr>"

definition hasty_config :: config where
  "hasty_config = default_config\<lparr>CONTINUOUS_HIGH_CPU := 1\<rparr>"

definition empty_directory :: "int directory" where
  "empty_directory = \<lparr>primary = None, backup = None, key_file = None\<rparr>"

definition dump_breaks :: faults where
  "dump_breaks = no_faults\<lparr>dump_fails := True\<rparr>"

text \<open>A store created in an empty directory with the cryptographic capability
  present, and the same store after \<open>set('a', 1)\<close> went through.\<close>

definition fresh_store :: "int persistent_state" where
  "fresh_store = PersistentState True ''K'' False empty_directory"

definition store_with_a :: "int persistent_state" where
  "store_with_a = snd (set_value no_faults ''a'' 1 fresh_store)"

text \<open>Four calls of user 7 against a limiter of two calls per ten seconds; the third
  comes exactly ten seconds after the first.\<close>

definition four_calls :: "(int \<times> int) list" where
  "four_calls = [(0, 7), (5000000, 7), (10000000, 7), (10000001, 7)]"

text \<open>The deque of one user inside the limiter, empty before the user's first call.\<close>

definition queue_of :: "rate_limiter \<Rightarrow> int \<Rightarrow> int list" where
  "queue_of rl k = (case store rl k of None \<Rightarrow> [] | Some q \<Rightarrow> q)"

text \<open>
  The invariant of one user's deque \<open>q\<close> against the instants \<open>hist\<close> at which that
  user's calls were approved so far, \<open>tlast\<close> being the instant of the latest call:
  \<open>q\<close> is what is left of \<open>hist\<close> after dropping instants older than the window, it
  holds at most \<open>max_calls\<close> entries, and no closed window of \<open>hist\<close> holds more.
\<close>

definition rl_inv :: "int \<Rightarrow> int \<Rightarrow> int \<Rightarrow> int list \<Rightarrow> int list \<Rightarrow> bool" where
  "rl_inv M W tlast hist q \<longleftrightarrow>
     (\<exists>dropped. hist = dropped @ q \<and> (\<forall>t\<in>set dropped. t < tlast - W)) \<and>
     int (length q) \<le> max 0 M \<and> (\<forall>a. int (in_window W a hist) \<le> max 0 M)"

section \<open>Results on the command whitelist\<close>

lemma sudo_pkill_rejected:
  "safe_subprocess run [''sudo'', ''pkill'', ''-f'', ''FactoryServer''] = None"
  by (simp add: safe_subprocess_def validate_command_def ALLOWED_COMMANDS_def)

lemma pkill_alone_accepted:
  "validate_command ''pkill'' [''-f'', ''FactoryServer'']"
  by (simp add: validate_command_def ALLOWED_COMMANDS_def standard_validation_def
        standard_arg_ok_def isalnum_def remove_char_def alnum_chars_def)

lemma validate_sysctl_write:
  "validate_command ''sysctl'' (''-w'' # arg # others) \<longleftrightarrow>
     split_first (CHR ''='') arg \<in> set ALLOWED_SYSCTL_PARAMS"
  by (simp add: validate_command_def ALLOWED_COMMANDS_def)

text \<open>
  C4. \<open>validate_command("sysctl", args)\<close> is meant to approve only argument lists whose
  parameter key is in \<open>ALLOWED_SYSCTL_PARAMS\<close>. The two examples of the claim come out
  as stated, yet the code approves lists that name keys outside the allow-list: a list
  whose first argument is neither \<open>-w\<close> nor \<open>-n\<close> falls through to the standard
  validation, which lets \<open>kernel.panic\<close> pass as alphanumeric text, and under \<open>-w\<close> only
  the first assignment is looked at.
\<close>

theorem validate_sysctl_unlisted_approved:
  "validate_command ''sysctl'' [''-w'', ''vm.swappiness=10''] \<and>
   \<not> validate_command ''sysctl'' [''-w'', ''kernel.panic=1''] \<and>
   ''kernel.panic'' \<notin> set ALLOWED_SYSCTL_PARAMS \<and>
   validate_command ''sysctl'' [''kernel.panic'', ''kernel.sysrq''] \<and>
   validate_command ''sysctl'' [''-w'', ''vm.swappiness=10'', ''kernel.panic=1'']"
  by (simp add: validate_command_def ALLOWED_COMMANDS_def ALLOWED_SYSCTL_PARAMS_def
        split_first_def standard_validation_def standard_arg_ok_def isalnum_def
        remove_char_def alnum_chars_def)

section \<open>Results on the recovery procedure\<close>

lemma restart_attempts_log_admin:
  "restart_attempts (log_admin m p st) =
     restart_attempts st + (if is_restart_attempt (m, p) then 1 else 0)"
  by (simp add: restart_attempts_def log_admin_def)

lemma log_admin_fields [simp]:
  "restart_count (log_admin m p st) = restart_count st"
  "last_restart (log_admin m p st) = last_restart st"
  "restart_history (log_admin m p st) = restart_history st"
  "max_restarts_per_hour (log_admin m p st) = max_restarts_per_hour st"
  "high_cpu_counter (log_admin m p st) = high_cpu_counter st"
  "down_counter (log_admin m p st) = down_counter st"
  "high_memory_counter (log_admin m p st) = high_memory_counter st"
  "alert_cooldowns (log_admin m p st) = alert_cooldowns st"
  "alert_cooldown_minutes (log_admin m p st) = alert_cooldown_minutes st"
  by (simp_all add: log_admin_def)

lemma set_alert_cooldown_fields [simp]:
  "down_counter (set_alert_cooldown n a st) = down_counter st"
  "high_cpu_counter (set_alert_cooldown n a st) = high_cpu_counter st"
  "high_memory_counter (set_alert_cooldown n a st) = high_memory_counter st"
  "restart_count (set_alert_cooldown n a st) = restart_count st"
  "last_restart (set_alert_cooldown n a st) = last_restart st"
  "restart_history (set_alert_cooldown n a st) = restart_history st"
  by (simp_all add: set_alert_cooldown_def)

lemma restart_attempts_update [simp]:
  "restart_attempts (st\<lparr>restart_count := a\<rparr>) = restart_attempts st"
  "restart_attempts (st\<lparr>last_restart := b\<rparr>) = restart_attempts st"
  "restart_attempts (st\<lparr>restart_history := c\<rparr>) = restart_attempts st"
  "restart_attempts (st\<lparr>persisted := d\<rparr>) = restart_attempts st"
  "restart_attempts (st\<lparr>down_counter := e\<rparr>) = restart_attempts st"
  "restart_attempts (st\<lparr>high_cpu_counter := f\<rparr>) = restart_attempts st"
  "restart_attempts (st\<lparr>high_memory_counter := g\<rparr>) = restart_attempts st"
  "restart_attempts (set_alert_cooldown n kind st) = restart_attempts st"
  by (simp_all add: restart_attempts_def set_alert_cooldown_def)

lemma can_restart_frame [simp]:
  "can_restart t (log_admin m p st) = can_restart t st"
  "can_restart t (set_alert_cooldown n a st) = can_restart t st"
  "can_restart t (st\<lparr>down_counter := e\<rparr>) = can_restart t st"
  "can_restart t (st\<lparr>high_cpu_counter := f\<rparr>) = can_restart t st"
  "can_restart t (st\<lparr>high_memory_counter := g\<rparr>) = can_restart t st"
  "can_restart t (st\<lparr>persisted := d\<rparr>) = can_restart t st"
  by (simp_all add: can_restart_def log_admin_def set_alert_cooldown_def)

text \<open>The entries \<open>can_restart\<close> counts are those whose timestamp parses and is less than
  one hour old.\<close>

lemma recent_restarts_filter:
  "recent_restarts hour_ago rs =
     filter (\<lambda>r. case timestamp r of None \<Rightarrow> False | Some t \<Rightarrow> t > hour_ago) rs"
  by (induction rs) (auto split: option.splits)

lemma restart_after_stop_attempts:
  "restart_attempts (snd (restart_after_stop cfg env now why st)) = restart_attempts st"
  by (simp add: restart_after_stop_def Let_def save_state_def restart_attempts_log_admin
        split: option.splits)

lemma restart_server_attempts:
  "restart_attempts (snd (restart_server cfg env now why st)) = Suc (restart_attempts st)"
  by (simp add: restart_server_def Let_def restart_after_stop_attempts
        restart_attempts_log_admin)

text \<open>Whenever the graceful stop fails the procedure returns \<open>False\<close> after the three
  alerts, whatever the executor would answer to the forced termination.\<close>

lemma restart_server_stop_failed:
  "failed (safe_systemctl (run_command env) ''stop'' (SATISFACTORY_SERVICE cfg)) \<Longrightarrow>
     restart_server cfg env now why st =
       (Some False, log_admin ForceStopFailed True (log_admin NormalStopFailed False
                      (log_admin (RestartTriggered why) False st)))"
  by (simp add: restart_server_def Let_def sudo_pkill_rejected failed_def)

lemma restart_after_stop_False:
  "restart_after_stop cfg env now why st = (Some False, st') \<Longrightarrow>
     restart_count st' = restart_count st \<and> last_restart st' = last_restart st \<and>
     restart_history st' = restart_history st \<and>
     max_restarts_per_hour st' = max_restarts_per_hour st"
  by (auto simp add: restart_after_stop_def Let_def save_state_def split: if_splits)

lemma restart_server_False:
  "restart_server cfg env now why st = (Some False, st') \<Longrightarrow>
     restart_count st' = restart_count st \<and> last_restart st' = last_restart st \<and>
     restart_history st' = restart_history st \<and>
     max_restarts_per_hour st' = max_restarts_per_hour st"
  by (auto simp add: restart_server_def Let_def split: if_splits
        dest!: restart_after_stop_False)

lemmas eval_validate =
  safe_systemctl_def safe_subprocess_def validate_command_def ALLOWED_COMMANDS_def
  endswith_def failed_def completed_def

lemmas eval_watchdog =
  restart_server_def restart_after_stop_def save_state_def log_admin_def Let_def
  new_watchdog_def default_config_def at_time_def should_send_alert_def
  set_alert_cooldown_def can_restart_def one_hour_def two_hours_def snapshot_of_def
  restart_attempts_def deque_append_def

text \<open>
  C1. When the graceful stop fails, the forced termination is meant to be tried and the
  procedure to go on to the start step when that termination succeeds. In the code the
  forced termination is the command \<open>sudo pkill -f FactoryServer\<close>; \<open>sudo\<close> is not a key
  of \<open>ALLOWED_COMMANDS\<close>, so \<open>safe_subprocess\<close> refuses it without running anything. With
  an executor under which the stop exits 1 and the forced termination would exit 0,
  \<open>restart_server\<close> returns \<open>False\<close> after the force-stop failure alert and never
  reaches the start step.
\<close>

theorem restart_server_forced_stop_refused:
  "run_command stop_refused [''sudo'', ''pkill'', ''-f'', ''FactoryServer''] = Some (completed 0) \<and>
   safe_subprocess (run_command stop_refused) [''sudo'', ''pkill'', ''-f'', ''FactoryServer'']
     = None \<and>
   fst (restart_server default_config stop_refused 0 ServerOffline (new_watchdog default_config))
     = Some False \<and>
   admin_log (snd (restart_server default_config stop_refused 0 ServerOffline
                     (new_watchdog default_config)))
     = [(RestartTriggered ServerOffline, False), (NormalStopFailed, False),
        (ForceStopFailed, True)]"
  by (simp add: stop_refused_def eval_validate eval_watchdog)

text \<open>
  C10. \<open>restart_server\<close> is atomic on failure: whenever it returns \<open>False\<close>,
  \<open>restart_count\<close>, \<open>last_restart\<close> and \<open>restart_history\<close> are as they were before the
  call, so the failed attempt takes nothing from the restart budget: \<open>can_restart\<close>
  answers at every instant as it did before, and the next sampling cycle may attempt
  again.
\<close>

theorem restart_server_failure_atomic:
  "restart_server cfg env now why st = (Some False, st') \<Longrightarrow>
     restart_count st' = restart_count st \<and> last_restart st' = last_restart st \<and>
     restart_history st' = restart_history st \<and>
     (\<forall>t. can_restart t st' = can_restart t st)"
  using restart_server_False[of cfg env now why st st'] by (simp add: can_restart_def)

theorem restart_server_failure_atomic_witness:
  "fst (restart_server default_config start_refused two_hours ServerOffline busy_watchdog)
     = Some False \<and>
   restart_count (snd (restart_server default_config start_refused two_hours ServerOffline
                         busy_watchdog)) = 3 \<and>
   last_restart (snd (restart_server default_config start_refused two_hours ServerOffline
                        busy_watchdog)) = Some 7150000000 \<and>
   restart_history (snd (restart_server default_config start_refused two_hours ServerOffline
                           busy_watchdog)) = restart_history busy_watchdog \<and>
   (\<forall>t. can_restart t (snd (restart_server default_config start_refused two_hours
                               ServerOffline busy_watchdog)) = can_restart t busy_watchdog)"
proof -
  let ?r = "restart_server default_config start_refused two_hours ServerOffline busy_watchdog"
  have ret: "fst ?r = Some False"
    by (simp add: start_refused_def busy_watchdog_def eval_validate eval_watchdog)
  then have "?r = (Some False, snd ?r)"
    by (simp add: prod_eq_iff)
  from restart_server_failure_atomic[OF this] ret show ?thesis
    by (simp add: busy_watchdog_def)
qed

section \<open>Results on the handlers\<close>

lemma handle_server_down_limited:
  "\<not> can_restart (now_limit clk) st \<Longrightarrow>
     restart_attempts (snd (handle_server_down cfg env clk st)) = restart_attempts st"
  by (simp add: handle_server_down_def Let_def save_state_def restart_attempts_log_admin)

lemma handle_high_memory_limited:
  "\<not> can_restart (now_limit clk) st \<Longrightarrow>
     restart_attempts (snd (handle_high_memory cfg env clk memory_mb st)) = restart_attempts st"
  by (simp add: handle_high_memory_def Let_def save_state_def restart_attempts_log_admin)

lemma handle_high_cpu_limited:
  "\<not> can_restart (now_limit clk) st \<Longrightarrow>
     restart_attempts (snd (handle_high_cpu cfg env clk cpu players st)) = restart_attempts st"
  by (simp add: handle_high_cpu_def Let_def save_state_def restart_attempts_log_admin)

lemma force_restart_attempts:
  "permitted \<Longrightarrow>
     restart_attempts (snd (force_restart_cmd cfg env clk permitted user st)) =
       Suc (restart_attempts st)"
  using restart_server_attempts[of cfg env "now_restart clk" "ForceRestartBy user"
          "log_admin (ForceRestartRequested user) False st"]
  by (auto simp add: force_restart_cmd_def Let_def restart_attempts_log_admin
        split: prod.splits option.splits)

lemmas eval_handlers =
  handle_server_down_def handle_high_memory_def handle_high_cpu_def force_restart_cmd_def
  alarmed_watchdog_def stop_refused_def

text \<open>
  C2. As stated, the claim covers every path into \<open>restart_server\<close>, the interactive
  force-restart trigger included; that trigger never consults \<open>can_restart\<close>. Amended:
  each of the three threshold handlers invokes \<open>restart_server\<close> only while
  \<open>can_restart\<close> holds, that is, while strictly fewer than \<open>max_restarts_per_hour\<close>
  entries of \<open>restart_history\<close> carry a timestamp less than one hour old; the
  force-restart command invokes it for every permitted caller, whatever the history
  holds.
\<close>

theorem handlers_respect_restart_budget:
  "(restart_attempts (snd (handle_server_down cfg env clk st)) \<noteq> restart_attempts st
      \<longrightarrow> can_restart (now_limit clk) st) \<and>
   (restart_attempts (snd (handle_high_memory cfg env clk memory_mb st)) \<noteq> restart_attempts st
      \<longrightarrow> can_restart (now_limit clk) st) \<and>
   (restart_attempts (snd (handle_high_cpu cfg env clk cpu players st)) \<noteq> restart_attempts st
      \<longrightarrow> can_restart (now_limit clk) st) \<and>
   (permitted \<longrightarrow>
      restart_attempts (snd (force_restart_cmd cfg env clk permitted user st))
        = Suc (restart_attempts st))"
  using handle_server_down_limited[of clk st cfg env]
    handle_high_memory_limited[of clk st cfg env memory_mb]
    handle_high_cpu_limited[of clk st cfg env cpu players]
    force_restart_attempts[of permitted cfg env clk user st]
  by blast

theorem handlers_respect_restart_budget_witness:
  "restart_attempts (snd (handle_server_down default_config stop_refused (at_time two_hours)
                            alarmed_watchdog)) \<noteq> restart_attempts alarmed_watchdog \<and>
   restart_attempts (snd (handle_high_memory default_config stop_refused (at_time two_hours)
                            13000 alarmed_watchdog)) \<noteq> restart_attempts alarmed_watchdog \<and>
   restart_attempts (snd (handle_high_cpu default_config stop_refused (at_time two_hours)
                            96 0 alarmed_watchdog)) \<noteq> restart_attempts alarmed_watchdog \<and>
   can_restart (now_limit (at_time two_hours)) alarmed_watchdog \<and>
   restart_attempts (snd (force_restart_cmd default_config stop_refused (at_time two_hours)
                            True ''admin'' alarmed_watchdog)) = Suc (restart_attempts alarmed_watchdog)"
  using handlers_respect_restart_budget[of default_config stop_refused "at_time two_hours"
          alarmed_watchdog 13000 96 0 True "''admin''"]
  by (simp add: eval_handlers eval_validate eval_watchdog)

theorem force_restart_ignores_budget:
  "\<not> can_restart two_hours busy_watchdog \<and>
   int (length (recent_restarts (two_hours - one_hour) (restart_history busy_watchdog)))
     = max_restarts_per_hour busy_watchdog \<and>
   restart_attempts (snd (force_restart_cmd default_config stop_refused (at_time two_hours)
                            True ''admin'' busy_watchdog)) = Suc (restart_attempts busy_watchdog)"
  by (simp add: busy_watchdog_def eval_handlers eval_validate eval_watchdog)

text \<open>
  C9. As stated, the counter is set back to \<open>CONTINUOUS_HIGH_CPU - 2\<close> and not to 0; the
  code sets it to \<open>max(CONTINUOUS_HIGH_CPU - 2, 0)\<close>. Amended: in a cycle whose CPU
  reading is at least 95 and whose increment brings \<open>high_cpu_counter\<close> to
  \<open>CONTINUOUS_HIGH_CPU\<close> or beyond while \<open>estimated_players > 0\<close>, the handler attempts
  no restart, reports \<open>cpu_restart_delayed_players\<close>, and leaves the counter at
  \<open>max(CONTINUOUS_HIGH_CPU - 2, 0)\<close>, which is \<open>CONTINUOUS_HIGH_CPU - 2\<close> whenever
  \<open>CONTINUOUS_HIGH_CPU\<close> is at least 2.
\<close>

theorem handle_high_cpu_deferred:
  "cpu \<ge> 95 \<Longrightarrow> high_cpu_counter st + 1 \<ge> CONTINUOUS_HIGH_CPU cfg \<Longrightarrow> players > 0 \<Longrightarrow>
     fst (handle_high_cpu cfg env clk cpu players st) = Some [''cpu_restart_delayed_players''] \<and>
     high_cpu_counter (snd (handle_high_cpu cfg env clk cpu players st))
       = max (CONTINUOUS_HIGH_CPU cfg - 2) 0 \<and>
     restart_attempts (snd (handle_high_cpu cfg env clk cpu players st)) = restart_attempts st \<and>
     restart_history (snd (handle_high_cpu cfg env clk cpu players st)) = restart_history st \<and>
     restart_count (snd (handle_high_cpu cfg env clk cpu players st)) = restart_count st"
  by (simp add: handle_high_cpu_def Let_def save_state_def restart_attempts_log_admin)

theorem handle_high_cpu_deferred_witness:
  "(96::real) \<ge> 95 \<and> high_cpu_counter alarmed_watchdog + 1 \<ge> CONTINUOUS_HIGH_CPU default_config \<and>
   (3::int) > 0 \<and>
   fst (handle_high_cpu default_config stop_refused (at_time two_hours) 96 3 alarmed_watchdog)
     = Some [''cpu_restart_delayed_players''] \<and>
   high_cpu_counter (snd (handle_high_cpu default_config stop_refused (at_time two_hours) 96 3
                            alarmed_watchdog)) = 3 \<and>
   restart_attempts (snd (handle_high_cpu default_config stop_refused (at_time two_hours) 96 3
                            alarmed_watchdog)) = 0"
proof -
  have h: "(96::real) \<ge> 95"
    "high_cpu_counter alarmed_watchdog + 1 \<ge> CONTINUOUS_HIGH_CPU default_config" "(3::int) > 0"
    by (simp_all add: alarmed_watchdog_def new_watchdog_def default_config_def)
  from handle_high_cpu_deferred[OF h, of stop_refused "at_time two_hours"] h show ?thesis
    by (simp add: alarmed_watchdog_def new_watchdog_def default_config_def restart_attempts_def)
qed

theorem cpu_deferral_counter_floor:
  "(96::real) \<ge> 95 \<and>
   high_cpu_counter (new_watchdog hasty_config) + 1 = CONTINUOUS_HIGH_CPU hasty_config \<and>
   (3::int) > 0 \<and>
   high_cpu_counter (snd (handle_high_cpu hasty_config stop_refused (at_time two_hours) 96 3
                            (new_watchdog hasty_config))) = 0 \<and>
   CONTINUOUS_HIGH_CPU hasty_config - 2 = - 1"
  by (simp add: hasty_config_def eval_handlers eval_validate eval_watchdog)

section \<open>Results on the rate limiter\<close>

lemma popleft_old_dropWhile: "popleft_old now W q = dropWhile (\<lambda>t. now - t > W) q"
  by (induction q) auto

lemma rl_inv_later: "rl_inv M W tlast hist q \<Longrightarrow> tlast \<le> now \<Longrightarrow> rl_inv M W now hist q"
  unfolding rl_inv_def by fastforce

text \<open>Pruning keeps the invariant: what it removes is older than the window.\<close>

lemma rl_inv_prune:
  assumes "rl_inv M W tlast hist q" "tlast \<le> now"
  shows "rl_inv M W now hist (popleft_old now W q)"
proof -
  let ?P = "\<lambda>t. now - t > W"
  from assms(1) obtain dropped where d: "hist = dropped @ q" "\<forall>t\<in>set dropped. t < tlast - W"
    and len: "int (length q) \<le> max 0 M" and win: "\<forall>a. int (in_window W a hist) \<le> max 0 M"
    unfolding rl_inv_def by blast
  have parts: "hist = (dropped @ takeWhile ?P q) @ dropWhile ?P q"
    using d(1) by simp
  have old: "\<forall>t\<in>set (dropped @ takeWhile ?P q). t < now - W"
  proof
    fix t assume "t \<in> set (dropped @ takeWhile ?P q)"
    then consider "t \<in> set dropped" | "t \<in> set (takeWhile ?P q)" by auto
    then show "t < now - W"
    proof cases
      case 1 with d(2) assms(2) show ?thesis by fastforce
    next
      case 2 then have "?P t" by (rule set_takeWhileD[THEN conjunct2])
      then show ?thesis by simp
    qed
  qed
  have "length (dropWhile ?P q) \<le> length q" by (rule length_dropWhile_le)
  with len have "int (length (dropWhile ?P q)) \<le> max 0 M" by linarith
  with parts old win show ?thesis
    unfolding rl_inv_def popleft_old_dropWhile by blast
qed

text \<open>Recording an approved call keeps the invariant: a closed window that contains
  the new instant reaches back no further than the deque does.\<close>

lemma rl_inv_append:
  assumes "rl_inv M W now hist q" "int (length q) < M"
  shows "rl_inv M W now (hist @ [now]) (q @ [now])"
proof -
  from assms(1) obtain dropped where d: "hist = dropped @ q" "\<forall>t\<in>set dropped. t < now - W"
    and win: "\<forall>a. int (in_window W a hist) \<le> max 0 M"
    unfolding rl_inv_def by blast
  have 1: "hist @ [now] = dropped @ (q @ [now])" using d(1) by simp
  have 2: "int (length (q @ [now])) \<le> max 0 M" using assms(2) by simp
  have 3: "int (in_window W a (hist @ [now])) \<le> max 0 M" for a
  proof (cases "a \<le> now \<and> now \<le> a + W")
    case False
    then have "in_window W a (hist @ [now]) = in_window W a hist"
      by (auto simp: in_window_def)
    with win show ?thesis by simp
  next
    case True
    have "filter (\<lambda>t. a \<le> t \<and> t \<le> a + W) dropped = []"
      using d(2) True by (auto simp: filter_empty_conv)
    then have "in_window W a (hist @ [now]) = in_window W a (q @ [now])"
      unfolding in_window_def 1 by simp
    also have "\<dots> \<le> length (q @ [now])" unfolding in_window_def by (rule length_filter_le)
    finally show ?thesis using 2 by linarith
  qed
  from 1 2 3 d(2) show ?thesis unfolding rl_inv_def by blast
qed

lemma allow_frame [simp]:
  "per (snd (allow now u rl)) = per rl"
  "max_calls (snd (allow now u rl)) = max_calls rl"
  by (simp_all add: allow_def Let_def)

lemma allow_other_key: "u \<noteq> k \<Longrightarrow> queue_of (snd (allow now u rl)) k = queue_of rl k"
  by (simp add: allow_def Let_def queue_of_def)

lemma allow_same_key:
  "queue_of (snd (allow now k rl)) k =
     popleft_old now (per rl) (queue_of rl k) @ (if fst (allow now k rl) then [now] else [])"
  "fst (allow now k rl) \<longleftrightarrow>
     int (length (popleft_old now (per rl) (queue_of rl k))) < max_calls rl"
  by (simp_all add: allow_def Let_def queue_of_def)

lemma approvals_Cons:
  "approvals k ((now, u, ok) # rest) = (if u = k \<and> ok then [now] else []) @ approvals k rest"
  by (simp add: approvals_def)

lemma allow_all_window:
  assumes "rl_inv (max_calls rl) (per rl) tlast hist (queue_of rl k)"
    and "sorted (tlast # map fst calls)"
  shows "int (in_window (per rl) a (hist @ approvals k (allow_all rl calls)))
           \<le> max 0 (max_calls rl)"
  using assms
proof (induction calls arbitrary: rl hist tlast)
  case Nil
  then show ?case by (simp add: rl_inv_def approvals_def)
next
  case (Cons c calls)
  obtain now u where c: "c = (now, u)" by (cases c)
  let ?rl' = "snd (allow now u rl)"
  from Cons.prems(2) c have le: "tlast \<le> now" and srt: "sorted (now # map fst calls)"
    by auto
  show ?case
  proof (cases "u = k \<and> fst (allow now u rl)")
    case True
    then have uk: "u = k" and ok: "fst (allow now k rl)" by auto
    have "rl_inv (max_calls rl) (per rl) now hist (popleft_old now (per rl) (queue_of rl k))"
      using Cons.prems(1) le by (rule rl_inv_prune)
    moreover have "int (length (popleft_old now (per rl) (queue_of rl k))) < max_calls rl"
      using ok allow_same_key(2) by blast
    ultimately have "rl_inv (max_calls rl) (per rl) now (hist @ [now])
        (popleft_old now (per rl) (queue_of rl k) @ [now])"
      by (rule rl_inv_append)
    then have "rl_inv (max_calls ?rl') (per ?rl') now (hist @ [now]) (queue_of ?rl' k)"
      using uk ok by (simp add: allow_same_key(1))
    from Cons.IH[OF this srt] show ?thesis
      using uk ok c by (simp add: approvals_Cons)
  next
    case False
    have "rl_inv (max_calls rl) (per rl) now hist (queue_of ?rl' k)"
    proof (cases "u = k")
      case True
      with False have "\<not> fst (allow now k rl)" by simp
      then have "queue_of ?rl' k = popleft_old now (per rl) (queue_of rl k)"
        using True by (simp add: allow_same_key(1))
      then show ?thesis using rl_inv_prune[OF Cons.prems(1) le] by simp
    next
      case False
      then show ?thesis using rl_inv_later[OF Cons.prems(1) le] by (simp add: allow_other_key)
    qed
    then have "rl_inv (max_calls ?rl') (per ?rl') now hist (queue_of ?rl' k)" by simp
    from Cons.IH[OF this srt] show ?thesis
      using False c by (auto simp add: approvals_Cons)
  qed
qed

lemma fresh_limiter_window:
  assumes "sorted (map fst calls)"
  shows "int (in_window (per (GlobalRateLimiter M s)) a
               (approvals k (allow_all (GlobalRateLimiter M s) calls))) \<le> max 0 M"
proof (cases calls)
  case Nil
  then show ?thesis by (simp add: approvals_def in_window_def)
next
  case (Cons c cs)
  let ?rl = "GlobalRateLimiter M s"
  have inv: "rl_inv (max_calls ?rl) (per ?rl) (fst c) [] (queue_of ?rl k)"
    by (simp add: rl_inv_def queue_of_def GlobalRateLimiter_def in_window_def)
  have "sorted (fst c # map fst calls)" using assms Cons by simp
  from allow_all_window[OF inv this, of a] show ?thesis
    by (simp add: GlobalRateLimiter_def)
qed

lemmas eval_limiter =
  GlobalRateLimiter_def allow_def Let_def approvals_def in_window_def four_calls_def

text \<open>The bound needs a clock that does not run backwards: with the readings 0, 11, 5,
  22 and 7 seconds, a limiter of two calls per ten seconds approves all five calls,
  three of them within the first ten seconds.\<close>

lemma backwards_clock_exceeds_limit:
  "approvals 7 (allow_all (GlobalRateLimiter 2 10)
      [(0, 7), (11000000, 7), (5000000, 7), (22000000, 7), (7000000, 7)])
     = [0, 11000000, 5000000, 22000000, 7000000] \<and>
   in_window (per (GlobalRateLimiter 2 10)) 0 [0, 11000000, 5000000, 22000000, 7000000] = 3"
  by (simp add: GlobalRateLimiter_def allow_def Let_def approvals_def in_window_def)

text \<open>
  C3. As stated, the window is exclusive on its old side: a recorded call whose age
  equals the window length no longer counts. The loop removes an entry only when its
  age is strictly greater than \<open>per\<close>, so an entry of exactly that age stays and
  counts. Amended: for every user and every sequence of calls timed by a clock that
  does not run backwards, a limiter that starts empty approves at most \<open>max_calls\<close>
  calls (none when \<open>max_calls\<close> is not positive) in any closed interval of length
  \<open>per\<close>, both ends included; a recorded call whose age equals \<open>per\<close> exactly is kept by
  the pruning loop and still counts against a new call.
\<close>

theorem allow_window_bound:
  "sorted (map fst calls) \<Longrightarrow>
     int (in_window (per (GlobalRateLimiter M s)) a
           (approvals k (allow_all (GlobalRateLimiter M s) calls))) \<le> max 0 M \<and>
     popleft_old (t + W) W (t # ts) = t # ts"
  using fresh_limiter_window[of calls M s a k] by simp

theorem allow_window_bound_witness:
  "sorted (map fst four_calls) \<and>
   approvals 7 (allow_all (GlobalRateLimiter 2 10) four_calls) = [0, 5000000, 10000001] \<and>
   int (in_window (per (GlobalRateLimiter 2 10)) 0
         (approvals 7 (allow_all (GlobalRateLimiter 2 10) four_calls))) \<le> max 0 2 \<and>
   popleft_old (0 + 10000000) 10000000 [0, 5000000] = [0, 5000000]"
proof -
  have h: "sorted (map fst four_calls)" by (simp add: four_calls_def)
  have "approvals 7 (allow_all (GlobalRateLimiter 2 10) four_calls) = [0, 5000000, 10000001]"
    by (simp add: eval_limiter)
  with allow_window_bound[OF h, of 2 10 0 7 0 10000000 "[5000000]"] h show ?thesis
    by simp
qed

theorem allow_boundary_still_counts:
  "(10000000::int) - 0 = per (GlobalRateLimiter 1 10) \<and>
   map (\<lambda>(t, u, ok). ok) (allow_all (GlobalRateLimiter 1 10) [(0, 7), (10000000, 7)])
     = [True, False]"
  by (simp add: eval_limiter)

section \<open>Results on the persistent store\<close>

lemma save_data [simp]: "data (save flt st) = data st"
  by (simp add: save_def Let_def)

lemma save_primary_written:
  "write_succeeds flt st \<Longrightarrow> primary (disk (save flt st)) = Some (PickledDict (data st))"
  by (auto simp add: save_def Let_def write_succeeds_def)

lemma PersistentState_data: "data (PersistentState c f w dir) = load dir"
  by (simp add: PersistentState_def Let_def split: prod.splits)

lemmas eval_store =
  fresh_store_def store_with_a_def PersistentState_def get_or_create_key_def load_def
  empty_directory_def set_value_def save_def Let_def no_faults_def dump_breaks_def
  write_succeeds_def get_def

text \<open>
  C5. Round trip of the store: after \<open>set(k, v)\<close> whose write went through, a fresh
  \<open>PersistentState\<close> built over the same directory holds exactly the mapping the
  process had in memory, so \<open>get(k)\<close> is \<open>v\<close> and every other key that was set keeps its
  value.
\<close>

theorem store_round_trip:
  "write_succeeds flt st \<Longrightarrow>
     data (PersistentState c f w (disk (snd (set_value flt k v st)))) = (data st)(k \<mapsto> v) \<and>
     get (PersistentState c f w (disk (snd (set_value flt k v st)))) k d = v \<and>
     (\<forall>k'. k' \<noteq> k \<longrightarrow>
        get (PersistentState c f w (disk (snd (set_value flt k v st)))) k' d = get st k' d)"
  using save_primary_written[of flt "st\<lparr>data := (data st)(k \<mapsto> v)\<rparr>"]
  by (simp add: PersistentState_data set_value_def load_def get_def write_succeeds_def)

theorem store_round_trip_witness:
  "write_succeeds no_faults store_with_a \<and>
   data (PersistentState True ''K'' False (disk (snd (set_value no_faults ''b'' 2 store_with_a))))
     = [''a'' \<mapsto> 1, ''b'' \<mapsto> 2] \<and>
   get (PersistentState True ''K'' False (disk (snd (set_value no_faults ''b'' 2 store_with_a))))
     ''b'' 0 = 2 \<and>
   get (PersistentState True ''K'' False (disk (snd (set_value no_faults ''b'' 2 store_with_a))))
     ''a'' 0 = 1"
proof -
  have h: "write_succeeds no_faults store_with_a"
    by (simp add: write_succeeds_def no_faults_def)
  have a: "data store_with_a = [''a'' \<mapsto> 1]"
    by (simp add: eval_store)
  have ne: "''a'' \<noteq> ''b''" by simp
  from store_round_trip[OF h, of True "''K''" False "''b''" 2 0] h a ne show ?thesis
    by (simp add: get_def)
qed



text \<open>
  C7. As stated, a failed write makes \<open>set\<close> return or signal an error. \<open>save\<close> catches
  the exception and logs it, and \<open>set\<close> has no result of its own. Amended: \<open>set(key,
  value)\<close> returns \<open>None\<close> under every behaviour of the file system and never raises;
  the in-memory mapping holds the new value; a write that did not go through is
  reported only by one more logged error.
\<close>

theorem set_value_always_returns:
  "fst (set_value flt k v st) = ReturnsNone \<and>
   data (snd (set_value flt k v st)) = (data st)(k \<mapsto> v) \<and>
   (\<not> write_succeeds flt st \<longrightarrow>
      errors_logged (snd (set_value flt k v st)) = errors_logged st + 1)"
  by (auto simp add: set_value_def save_def Let_def write_succeeds_def)

theorem set_value_always_returns_witness:
  "\<not> write_succeeds dump_breaks fresh_store \<and>
   fst (set_value dump_breaks ''a'' 1 fresh_store) = ReturnsNone \<and>
   data (snd (set_value dump_breaks ''a'' 1 fresh_store)) = [''a'' \<mapsto> 1] \<and>
   errors_logged (snd (set_value dump_breaks ''a'' 1 fresh_store)) = 1"
proof -
  have h: "\<not> write_succeeds dump_breaks fresh_store"
    by (simp add: write_succeeds_def dump_breaks_def)
  have e: "data fresh_store = Map.empty" "errors_logged fresh_store = 0"
    by (simp_all add: eval_store)
  from set_value_always_returns[of dump_breaks "''a''" 1 fresh_store] h e show ?thesis
    by simp
qed

theorem set_value_hides_write_failure:
  "dump_fails dump_breaks \<and>
   fst (set_value dump_breaks ''a'' 1 fresh_store) = ReturnsNone \<and>
   fst (set_value no_faults ''a'' 1 fresh_store) = ReturnsNone \<and>
   primary (disk (snd (set_value dump_breaks ''a'' 1 fresh_store))) = Some Truncated \<and>
   load (disk (snd (set_value dump_breaks ''a'' 1 fresh_store))) ''a'' = None"
  by (simp add: eval_store)

text \<open>
  C8. With the cryptographic capability present the bytes \<open>save\<close> writes are meant to
  be encrypted with the stored key. \<open>save\<close> never reads \<open>_encryption_key\<close>: what it
  writes with a key is what it writes without one, the plain pickle of the mapping.
  The store created with the capability present has generated and stored its key, and
  the file it writes is the plain pickle all the same.
\<close>

theorem save_ignores_encryption_key:
  "disk (save flt (st\<lparr>encryption_key := Some key\<rparr>))
     = disk (save flt (st\<lparr>encryption_key := None\<rparr>)) \<and>
   encryption_key fresh_store = Some ''K'' \<and>
   key_file (disk fresh_store) = Some ''K'' \<and>
   primary (disk (snd (set_value no_faults ''a'' 1 fresh_store)))
     = Some (PickledDict [''a'' \<mapsto> 1])"
  by (simp add: eval_store)

section \<open>Further results on the recovery procedure\<close>

lemma set_alert_cooldown_limit [simp]:
  "max_restarts_per_hour (set_alert_cooldown n kind st) = max_restarts_per_hour st"
  by (simp add: set_alert_cooldown_def)

text \<open>
  X1. \<open>restart_server\<close> never returns \<open>True\<close>. After a successful start it updates
  \<open>restart_count\<close>, \<open>last_restart\<close> and \<open>restart_history\<close> and then awaits \<open>save_state\<close>
  while still inside \<open>async with self._lock\<close>; \<open>save_state\<close> waits for the same lock,
  so the call does not return, the new history is never handed to the store, and the
  success alert is never sent.
\<close>

theorem restart_server_never_returns_True:
  "fst (restart_server cfg env now why st) \<noteq> Some True \<and>
   fst (restart_server default_config all_ok two_hours ServerOffline (new_watchdog default_config))
     = None \<and>
   restart_history (snd (restart_server default_config all_ok two_hours ServerOffline
                           (new_watchdog default_config)))
     = [\<lparr>timestamp = Some two_hours, reason = ServerOffline, restart_number = 1\<rparr>] \<and>
   persisted (snd (restart_server default_config all_ok two_hours ServerOffline
                     (new_watchdog default_config))) = None"
  by (simp add: restart_server_def restart_after_stop_def save_state_def Let_def all_ok_def
        eval_validate new_watchdog_def default_config_def log_admin_def deque_append_def)

lemma handle_server_down_failed_stop:
  assumes "failed (safe_systemctl (run_command env) ''stop'' (SATISFACTORY_SERVICE cfg))"
    and "down_counter st + 1 \<ge> SERVER_DOWN_THRESHOLD cfg"
    and "can_restart (now_limit clk) st"
  shows "fst (handle_server_down cfg env clk st) = Some [''restart_failed'']"
    and "restart_attempts (snd (handle_server_down cfg env clk st)) = Suc (restart_attempts st)"
    and "restart_history (snd (handle_server_down cfg env clk st)) = restart_history st"
    and "max_restarts_per_hour (snd (handle_server_down cfg env clk st))
           = max_restarts_per_hour st"
    and "down_counter (snd (handle_server_down cfg env clk st)) = down_counter st + 1"
  using assms
  by (simp_all add: handle_server_down_def Let_def save_state_def restart_server_stop_failed
        restart_attempts_log_admin)

text \<open>
  X2. Failed restarts are attempted without limit: while the graceful stop keeps
  failing, every availability cycle past the threshold makes one more restart attempt;
  after \<open>n\<close> such cycles \<open>n\<close> attempts were made and \<open>restart_history\<close> has not changed.
\<close>

theorem failed_restarts_repeat:
  assumes "failed (safe_systemctl (run_command env) ''stop'' (SATISFACTORY_SERVICE cfg))"
    and "down_counter st + 1 \<ge> SERVER_DOWN_THRESHOLD cfg"
    and "can_restart (now_limit clk) st"
  shows "restart_attempts (((\<lambda>s. snd (handle_server_down cfg env clk s)) ^^ n) st)
           = restart_attempts st + n \<and>
         restart_history (((\<lambda>s. snd (handle_server_down cfg env clk s)) ^^ n) st)
           = restart_history st \<and>
         max_restarts_per_hour (((\<lambda>s. snd (handle_server_down cfg env clk s)) ^^ n) st)
           = max_restarts_per_hour st \<and>
         down_counter (((\<lambda>s. snd (handle_server_down cfg env clk s)) ^^ n) st)
           = down_counter st + int n"
proof (induction n)
  case 0
  show ?case by simp
next
  case (Suc n)
  let ?s = "((\<lambda>s. snd (handle_server_down cfg env clk s)) ^^ n) st"
  have a: "down_counter ?s + 1 \<ge> SERVER_DOWN_THRESHOLD cfg" using Suc assms(2) by simp
  have b: "can_restart (now_limit clk) ?s" using Suc assms(3) by (simp add: can_restart_def)
  from handle_server_down_failed_stop[OF assms(1) a b] Suc show ?case by simp
qed

theorem failed_restarts_repeat_witness:
  "failed (safe_systemctl (run_command stop_refused) ''stop''
             (SATISFACTORY_SERVICE default_config)) \<and>
   down_counter alarmed_watchdog + 1 \<ge> SERVER_DOWN_THRESHOLD default_config \<and>
   can_restart (now_limit (at_time two_hours)) alarmed_watchdog \<and>
   restart_attempts (((\<lambda>s. snd (handle_server_down default_config stop_refused
                                    (at_time two_hours) s)) ^^ 100) alarmed_watchdog) = 100 \<and>
   restart_history (((\<lambda>s. snd (handle_server_down default_config stop_refused
                                   (at_time two_hours) s)) ^^ 100) alarmed_watchdog) = []"
proof -
  have h: "failed (safe_systemctl (run_command stop_refused) ''stop''
                     (SATISFACTORY_SERVICE default_config))"
    "down_counter alarmed_watchdog + 1 \<ge> SERVER_DOWN_THRESHOLD default_config"
    "can_restart (now_limit (at_time two_hours)) alarmed_watchdog"
    by (simp_all add: stop_refused_def alarmed_watchdog_def eval_validate eval_watchdog)
  have z: "restart_attempts alarmed_watchdog = 0" "restart_history alarmed_watchdog = []"
    by (simp_all add: alarmed_watchdog_def new_watchdog_def restart_attempts_def)
  from failed_restarts_repeat[OF h, of 100] h z show ?thesis
    by simp
qed

end
